theory Spec2Isabelle
  imports Complex_Main "HOL-Library.AList"
begin

section \<open>ChromaDBStore: a vector store on top of a Chroma collection\<close>

text \<open>
  The source is \<^verbatim>\<open>chromadb_store.py\<close>: the class \<^verbatim>\<open>ChromaDBStore\<close> with its
  constructor, the three entry points \<^verbatim>\<open>store\<close>, \<^verbatim>\<open>retrieve\<close> and
  \<^verbatim>\<open>find_similar\<close>, and the helpers \<^verbatim>\<open>_get_chroma_collection\<close>,
  \<^verbatim>\<open>_return_best_match\<close> and \<^verbatim>\<open>_store\<close>.

  The class talks to collaborators that are not part of the repository: the Chroma client
  and its collections, the embedding provider, \<^verbatim>\<open>str.encode\<close> and \<^verbatim>\<open>hashlib\<close>. They are
  parameters of the model (the record \<open>collaborators\<close>). The client, the collections and the
  provider are functions on an abstract world state that may answer with an exception, and
  every call made to them is appended to a trace, so that a statement about which calls an
  operation makes is a statement about a value.
\<close>

subsection \<open>Values\<close>

text \<open>
  Python exceptions. \<open>IndexError\<close> and \<open>TypeError\<close> are raised by the class's own
  subscripts; \<open>AttributeError\<close> and \<open>UnicodeEncodeError\<close> by \<^verbatim>\<open>.encode("utf-8")\<close> in
  \<^verbatim>\<open>_store\<close>; \<open>ImportError\<close> by the constructor; \<open>NameError\<close> by the class statement
  when the name \<^verbatim>\<open>chromadb\<close> is unbound; \<open>CollaboratorError\<close> is whatever the backend or
  the embedding provider raises.
\<close>

datatype py_error =
    ImportError | NameError | IndexError | TypeError | AttributeError | UnicodeEncodeError
  | CollaboratorError string

text \<open>
  A Python float as far as \<^verbatim>\<open><=\<close> can tell: a real number, an infinity, or NaN (with which
  every comparison is false).
\<close>

datatype pyfloat = NegInf | Finite real | PosInf | NaN

definition float_le :: "pyfloat \<Rightarrow> pyfloat \<Rightarrow> bool" where
  "float_le a b =
     (case a of
        NaN \<Rightarrow> False
      | NegInf \<Rightarrow> (case b of NaN \<Rightarrow> False | _ \<Rightarrow> True)
      | Finite x \<Rightarrow> (case b of Finite y \<Rightarrow> x \<le> y | PosInf \<Rightarrow> True | _ \<Rightarrow> False)
      | PosInf \<Rightarrow> (case b of PosInf \<Rightarrow> True | _ \<Rightarrow> False))"

text \<open>\<^verbatim>\<open>Literal["l2", "ip", "cosine"]\<close>\<close>

datatype distance_method = L2 | IP | Cosine

text \<open>
  \<^verbatim>\<open>Union[Embeddings, chromadb.EmbeddingFunction]\<close>: the two cases that
  \<^verbatim>\<open>isinstance(self.embedding_function, Embeddings)\<close> tells apart, each holding the
  reference to the object.
\<close>

datatype embedding_function = Embeddings nat | EmbeddingFunction nat

text \<open>
  Modelled from the spec: \<^verbatim>\<open>VectorDBEntry\<close> is declared in \<^verbatim>\<open>in_memory.py\<close>, which is not
  among the sources. The spec's data model gives it the fields \<open>key\<close>, \<open>vector\<close> and
  \<open>metadata\<close>, and lets the payload \<open>vector\<close> be raw text or a numeric vector. The types of
  \<open>key\<close> and \<open>metadata\<close> are parameters: \<^verbatim>\<open>store\<close> receives entries whose key is a
  string, \<^verbatim>\<open>retrieve\<close> builds entries from \<^verbatim>\<open>dict.get\<close>, whose answer may be \<^verbatim>\<open>None\<close>.
\<close>

datatype payload = Text string | Numeric "pyfloat list"

record ('k, 'm) VectorDBEntry =
  key :: 'k
  vector :: payload
  metadata :: 'm

text \<open>
  The dictionary stored with each row, \<^verbatim>\<open>{"key": ..., "metadata": ...}\<close>. The class reads
  it back with \<^verbatim>\<open>.get("key")\<close> and \<^verbatim>\<open>.get("metadata")\<close>, so each of the two keys may
  be missing (\<open>None\<close>).
\<close>

record 'm row_meta =
  meta_key :: "string option"
  meta_metadata :: "'m option"

text \<open>An element of \<^verbatim>\<open>formatted_data\<close>: \<^verbatim>\<open>{"text": ..., "metadata": {...}}\<close>.\<close>

record 'm data_item =
  item_text :: payload
  item_metadata :: "'m row_meta"

text \<open>
  The answer of \<^verbatim>\<open>collection.query\<close>, column first: one list per column, and in each
  column one inner list per query. A column may be \<^verbatim>\<open>None\<close>. Only the columns the class
  reads are kept.
\<close>

record 'm QueryResult =
  documents :: "string list list option"
  metadatas :: "'m row_meta list list option"
  distances :: "pyfloat list list option"

text \<open>\<^verbatim>\<open>query_embeddings=...\<close> or \<^verbatim>\<open>query_texts=...\<close>\<close>

datatype 'v query_by = QueryEmbeddings "'v list" | QueryTexts "string list"

subsection \<open>The store object\<close>

text \<open>
  The attributes set by \<^verbatim>\<open>__init__\<close>. \<open>metadata_private\<close> is \<^verbatim>\<open>self._metadata\<close>, the
  dictionary \<^verbatim>\<open>{"hnsw:space": distance_method}\<close>. \<open>chroma_client\<close> is the reference to the
  client object.
\<close>

record ChromaDBStore =
  index_name :: string
  chroma_client :: nat
  embedding_function :: embedding_function
  max_distance :: "pyfloat option"
  metadata_private :: "(string \<times> distance_method) list"

text \<open>
  The module's top level (lines 1 to 15). \<^verbatim>\<open>import chromadb\<close> is tried: if it succeeds the
  name \<^verbatim>\<open>chromadb\<close> is bound and \<^verbatim>\<open>HAS_CHROMADB = True\<close>; if it raises
  \<^verbatim>\<open>ImportError\<close> the name stays unbound and \<^verbatim>\<open>HAS_CHROMADB = False\<close>. Then the
  \<^verbatim>\<open>class\<close> statement runs. Its \<^verbatim>\<open>def\<close>s carry the annotations
  \<^verbatim>\<open>chromadb.ClientAPI\<close>, \<^verbatim>\<open>chromadb.EmbeddingFunction\<close> and \<^verbatim>\<open>chromadb.Collection\<close>;
  the file has no \<^verbatim>\<open>from __future__ import annotations\<close>, so Python (before 3.14)
  evaluates them when the \<^verbatim>\<open>def\<close> is executed, and with \<^verbatim>\<open>chromadb\<close> unbound that is a
  \<open>NameError\<close>: the module is not imported and the class does not exist. The answer is the
  flag of the imported module. The imports of the repository's own modules (lines 11 and 12)
  are taken to succeed.
\<close>

definition import_module :: "bool \<Rightarrow> py_error + bool" where
  "import_module chromadb_installed =
     (let HAS_CHROMADB = chromadb_installed;
          chromadb_bound = chromadb_installed
      in if \<not> chromadb_bound then Inl NameError else Inr HAS_CHROMADB)"

text \<open>
  \<^verbatim>\<open>__init__\<close>. \<open>HAS_CHROMADB\<close> is the module's flag. \<^verbatim>\<open>super().__init__()\<close> belongs to
  \<^verbatim>\<open>InMemoryVectorStore\<close>, which is not among the sources; it is taken to return normally.
  The constructor calls no collaborator, so it is a function of its arguments alone.
\<close>

definition ChromaDBStore_init ::
  "bool \<Rightarrow> string \<Rightarrow> nat \<Rightarrow> embedding_function \<Rightarrow> pyfloat option \<Rightarrow> distance_method
     \<Rightarrow> py_error + ChromaDBStore" where
  "ChromaDBStore_init HAS_CHROMADB index_name' chroma_client' embedding_function'
       max_distance' distance_method' =
     (if \<not> HAS_CHROMADB then Inl ImportError
      else Inr \<lparr>index_name = index_name',
                chroma_client = chroma_client',
                embedding_function = embedding_function',
                max_distance = max_distance',
                metadata_private = [(''hnsw:space'', distance_method')]\<rparr>)"

text \<open>
  Constructing a store where \<^verbatim>\<open>chromadb\<close> is or is not installed: the module is imported,
  then the class is called.
\<close>

definition construct ::
  "bool \<Rightarrow> string \<Rightarrow> nat \<Rightarrow> embedding_function \<Rightarrow> pyfloat option \<Rightarrow> distance_method
     \<Rightarrow> py_error + ChromaDBStore" where
  "construct chromadb_installed index_name' chroma_client' embedding_function' max_distance'
       distance_method' =
     (case import_module chromadb_installed of
        Inl e \<Rightarrow> Inl e
      | Inr HAS_CHROMADB \<Rightarrow>
          ChromaDBStore_init HAS_CHROMADB index_name' chroma_client' embedding_function'
            max_distance' distance_method')"

subsection \<open>Collaborators, calls and the program state\<close>

text \<open>
  A call to a collaborator, with its arguments as the class passes them and, last, the
  collaborator's answer (a value or an exception):
  \<^item> \<open>GetOrCreateCollection client name metadata ef answer\<close>:
    \<^verbatim>\<open>client.get_or_create_collection(name=, metadata=[, embedding_function=])\<close>;
  \<^item> \<open>EmbedText provider texts answer\<close>: \<^verbatim>\<open>provider.embed_text(texts)\<close>;
  \<^item> \<open>CollectionAdd collection ids embeddings documents metadatas answer\<close>:
    \<^verbatim>\<open>collection.add(ids=, [embeddings=,] documents=, metadatas=)\<close>;
  \<^item> \<open>CollectionQuery collection query n_results answer\<close>:
    \<^verbatim>\<open>collection.query(..., n_results=)\<close>.
\<close>

datatype ('c, 'v, 'm) call =
    GetOrCreateCollection nat string "(string \<times> distance_method) list" "nat option"
      "py_error + 'c"
  | EmbedText nat "payload list" "py_error + 'v list"
  | CollectionAdd 'c "string list" "'v list option" "payload list" "'m row_meta list"
      "py_error + unit"
  | CollectionQuery 'c "'v query_by" int "py_error + 'm QueryResult"

text \<open>
  What the collaborators do: \<open>'w\<close> is the state of the world outside the object (the
  backend's collections), \<open>'c\<close> a collection handle, \<open>'v\<close> an embedding vector, \<open>'m\<close> the
  caller's metadata. \<open>encode_utf8\<close> is \<^verbatim>\<open>str.encode("utf-8")\<close>, which raises
  \<open>UnicodeEncodeError\<close> on a string it cannot encode (one with a lone surrogate), and
  \<open>sha256_hexdigest\<close> is \<^verbatim>\<open>sha256(...).hexdigest()\<close>; byte strings are \<open>string\<close>s. The
  documents handed to the provider and to \<^verbatim>\<open>add\<close> are the payloads as the entries hold
  them.
\<close>

record ('w, 'c, 'v, 'm) collaborators =
  encode_utf8 :: "string \<Rightarrow> py_error + string"
  sha256_hexdigest :: "string \<Rightarrow> string"
  get_or_create_collection ::
    "nat \<Rightarrow> string \<Rightarrow> (string \<times> distance_method) list \<Rightarrow> nat option \<Rightarrow> 'w
       \<Rightarrow> (py_error + 'c) \<times> 'w"
  embed_text :: "nat \<Rightarrow> payload list \<Rightarrow> 'w \<Rightarrow> (py_error + 'v list) \<times> 'w"
  collection_add ::
    "'c \<Rightarrow> string list \<Rightarrow> 'v list option \<Rightarrow> payload list \<Rightarrow> 'm row_meta list \<Rightarrow> 'w
       \<Rightarrow> (py_error + unit) \<times> 'w"
  collection_query :: "'c \<Rightarrow> 'v query_by \<Rightarrow> int \<Rightarrow> 'w \<Rightarrow> (py_error + 'm QueryResult) \<times> 'w"

text \<open>
  The state a method runs in: the object itself, the world, and the calls made so far.
\<close>

record ('w, 'c, 'v, 'm) state =
  self :: ChromaDBStore
  world :: 'w
  trace :: "('c, 'v, 'm) call list"

text \<open>
  Making a call: the world answers and moves on, and the call is recorded with its answer.
\<close>

definition perform ::
  "('r \<Rightarrow> ('c, 'v, 'm) call) \<Rightarrow> ('w \<Rightarrow> 'r \<times> 'w) \<Rightarrow> ('w, 'c, 'v, 'm) state
     \<Rightarrow> 'r \<times> ('w, 'c, 'v, 'm) state" where
  "perform c f st =
     (case f (world st) of
        (r, w') \<Rightarrow> (r, st\<lparr>world := w', trace := trace st @ [c r]\<rparr>))"

text \<open>Sequencing: an exception ends the method with the state reached.\<close>

definition bind_exn ::
  "('s \<Rightarrow> (py_error + 'a) \<times> 's) \<Rightarrow> ('a \<Rightarrow> 's \<Rightarrow> (py_error + 'b) \<times> 's)
     \<Rightarrow> 's \<Rightarrow> (py_error + 'b) \<times> 's" where
  "bind_exn m f st =
     (case m st of
        (Inl e, st') \<Rightarrow> (Inl e, st')
      | (Inr x, st') \<Rightarrow> f x st')"

subsection \<open>The methods\<close>

text \<open>
  \<^verbatim>\<open>_get_chroma_collection\<close>: with an \<^verbatim>\<open>Embeddings\<close> provider the collection is asked for
  without an embedding function, otherwise with the configured one.
\<close>

definition get_chroma_collection ::
  "('w, 'c, 'v, 'm) collaborators \<Rightarrow> ('w, 'c, 'v, 'm) state
     \<Rightarrow> (py_error + 'c) \<times> ('w, 'c, 'v, 'm) state" where
  "get_chroma_collection X st =
     (let s = self st in
      case embedding_function s of
        Embeddings _ \<Rightarrow>
          perform (GetOrCreateCollection (chroma_client s) (index_name s) (metadata_private s) None)
            (get_or_create_collection X (chroma_client s) (index_name s) (metadata_private s) None)
            st
      | EmbeddingFunction f \<Rightarrow>
          perform
            (GetOrCreateCollection (chroma_client s) (index_name s) (metadata_private s) (Some f))
            (get_or_create_collection X (chroma_client s) (index_name s) (metadata_private s)
               (Some f))
            st)"

text \<open>
  \<^verbatim>\<open>x[0][0]\<close> on a column of a query result: \<^verbatim>\<open>None\<close> is not subscriptable
  (\<open>TypeError\<close>), an empty list has no first element (\<open>IndexError\<close>).
\<close>

definition subscript_0_0 :: "'a list list option \<Rightarrow> py_error + 'a" where
  "subscript_0_0 column =
     (case column of
        None \<Rightarrow> Inl TypeError
      | Some [] \<Rightarrow> Inl IndexError
      | Some ([] # _) \<Rightarrow> Inl IndexError
      | Some ((x # _) # _) \<Rightarrow> Inr x)"

text \<open>
  \<^verbatim>\<open>_return_best_match\<close>. Python's \<^verbatim>\<open>or\<close> does not look at the distances when
  \<^verbatim>\<open>max_distance\<close> is \<^verbatim>\<open>None\<close>.
\<close>

definition return_best_match ::
  "ChromaDBStore \<Rightarrow> 'm QueryResult \<Rightarrow> py_error + string option" where
  "return_best_match s retrieved =
     (case max_distance s of
        None \<Rightarrow> map_sum id Some (subscript_0_0 (documents retrieved))
      | Some limit \<Rightarrow>
          (case subscript_0_0 (distances retrieved) of
             Inl e \<Rightarrow> Inl e
           | Inr d \<Rightarrow>
               if float_le d limit then map_sum id Some (subscript_0_0 (documents retrieved))
               else Inr None))"

text \<open>The list comprehension of \<^verbatim>\<open>store\<close>.\<close>

definition formatted_data :: "(string, 'm) VectorDBEntry list \<Rightarrow> 'm data_item list" where
  "formatted_data entries =
     map (\<lambda>entry.
            \<lparr>item_text = vector entry,
             item_metadata = \<lparr>meta_key = Some (key entry), meta_metadata = Some (metadata entry)\<rparr>\<rparr>)
         entries"

text \<open>
  \<^verbatim>\<open>item["text"].encode("utf-8")\<close>: a payload that is not a string has no method
  \<^verbatim>\<open>encode\<close> (\<open>AttributeError\<close>); a string is encoded, which may raise.
\<close>

definition encode_payload :: "('w, 'c, 'v, 'm) collaborators \<Rightarrow> payload \<Rightarrow> py_error + string" where
  "encode_payload X p =
     (case p of
        Text t \<Rightarrow> encode_utf8 X t
      | Numeric _ \<Rightarrow> Inl AttributeError)"

text \<open>
  Line 105, \<^verbatim>\<open>ids = [sha256(item["text"].encode("utf-8")).hexdigest() for item in data]\<close>:
  the items are taken in order, and the first payload that cannot be encoded ends the
  comprehension with its exception.
\<close>

fun derive_ids :: "('w, 'c, 'v, 'm) collaborators \<Rightarrow> 'm data_item list \<Rightarrow> py_error + string list" where
  "derive_ids X [] = Inr []"
| "derive_ids X (item # rest) =
     (case encode_payload X (item_text item) of
        Inl e \<Rightarrow> Inl e
      | Inr encoded \<Rightarrow>
          (case derive_ids X rest of
             Inl e \<Rightarrow> Inl e
           | Inr ids \<Rightarrow> Inr (sha256_hexdigest X encoded # ids)))"

text \<open>
  \<^verbatim>\<open>_store\<close>: the ids are computed first, before any call, and an exception there ends
  the method; then the texts and the metadata are collected, the collection is fetched, the
  texts are embedded (by the provider, in one call) or not, and the rows are added in one
  call.
\<close>

definition store_private ::
  "('w, 'c, 'v, 'm) collaborators \<Rightarrow> 'm data_item list \<Rightarrow> ('w, 'c, 'v, 'm) state
     \<Rightarrow> (py_error + unit) \<times> ('w, 'c, 'v, 'm) state" where
  "store_private X data_items st =
     (case derive_ids X data_items of
        Inl e \<Rightarrow> (Inl e, st)
      | Inr ids \<Rightarrow>
          (let texts = map item_text data_items;
               metadata' = map item_metadata data_items
           in bind_exn (get_chroma_collection X) (\<lambda>collection st.
                case embedding_function (self st) of
                  Embeddings provider \<Rightarrow>
                    bind_exn (perform (EmbedText provider texts) (embed_text X provider texts))
                      (\<lambda>embeddings.
                         perform (CollectionAdd collection ids (Some embeddings) texts metadata')
                           (collection_add X collection ids (Some embeddings) texts metadata'))
                      st
                | EmbeddingFunction _ \<Rightarrow>
                    perform (CollectionAdd collection ids None texts metadata')
                      (collection_add X collection ids None texts metadata')
                      st)
                st))"

definition store ::
  "('w, 'c, 'v, 'm) collaborators \<Rightarrow> (string, 'm) VectorDBEntry list \<Rightarrow> ('w, 'c, 'v, 'm) state
     \<Rightarrow> (py_error + unit) \<times> ('w, 'c, 'v, 'm) state" where
  "store X entries = store_private X (formatted_data entries)"

text \<open>
  The loop of \<^verbatim>\<open>retrieve\<close> over \<^verbatim>\<open>zip(documents, metadatas)\<close>: each pair is one inner
  list of documents and one of metadata dictionaries, and the loop reads the first element
  of each (\<^verbatim>\<open>meta[0]\<close>, \<^verbatim>\<open>doc[0]\<close>), which raises \<open>IndexError\<close> on an empty list.
\<close>

fun retrieve_loop ::
  "(string option, 'm option) VectorDBEntry list \<Rightarrow> (string list \<times> 'm row_meta list) list
     \<Rightarrow> py_error + (string option, 'm option) VectorDBEntry list" where
  "retrieve_loop entries [] = Inr entries"
| "retrieve_loop entries ((doc, meta) # rest) =
     (case meta of
        [] \<Rightarrow> Inl IndexError
      | meta0 # _ \<Rightarrow>
          (case doc of
             [] \<Rightarrow> Inl IndexError
           | doc0 # _ \<Rightarrow>
               retrieve_loop
                 (entries @
                    [\<lparr>key = meta_key meta0, vector = Text doc0, metadata = meta_metadata meta0\<rparr>])
                 rest))"

text \<open>\<^verbatim>\<open>zip(a, b)\<close> raises \<open>TypeError\<close> when an argument is \<^verbatim>\<open>None\<close>.\<close>

definition zip_columns ::
  "'a list option \<Rightarrow> 'b list option \<Rightarrow> py_error + ('a \<times> 'b) list" where
  "zip_columns a b =
     (case a of
        None \<Rightarrow> Inl TypeError
      | Some xs \<Rightarrow> (case b of None \<Rightarrow> Inl TypeError | Some ys \<Rightarrow> Inr (zip xs ys)))"

definition retrieve ::
  "('w, 'c, 'v, 'm) collaborators \<Rightarrow> 'v \<Rightarrow> int \<Rightarrow> ('w, 'c, 'v, 'm) state
     \<Rightarrow> (py_error + (string option, 'm option) VectorDBEntry list) \<times> ('w, 'c, 'v, 'm) state" where
  "retrieve X vector' k =
     bind_exn (get_chroma_collection X) (\<lambda>collection.
       bind_exn
         (perform (CollectionQuery collection (QueryEmbeddings [vector']) k)
            (collection_query X collection (QueryEmbeddings [vector']) k))
         (\<lambda>query_result st.
            (case zip_columns (documents query_result) (metadatas query_result) of
               Inl e \<Rightarrow> Inl e
             | Inr pairs \<Rightarrow> retrieve_loop [] pairs,
             st)))"

definition find_similar ::
  "('w, 'c, 'v, 'm) collaborators \<Rightarrow> string \<Rightarrow> ('w, 'c, 'v, 'm) state
     \<Rightarrow> (py_error + string option) \<times> ('w, 'c, 'v, 'm) state" where
  "find_similar X text' =
     bind_exn (get_chroma_collection X) (\<lambda>collection st.
       case embedding_function (self st) of
         Embeddings provider \<Rightarrow>
           bind_exn
             (perform (EmbedText provider [Text text']) (embed_text X provider [Text text']))
             (\<lambda>embedding.
                bind_exn
                  (perform (CollectionQuery collection (QueryEmbeddings embedding) 1)
                     (collection_query X collection (QueryEmbeddings embedding) 1))
                  (\<lambda>retrieved st'. (return_best_match (self st') retrieved, st')))
             st
       | EmbeddingFunction _ \<Rightarrow>
           bind_exn
             (perform (CollectionQuery collection (QueryTexts [text']) 1)
                (collection_query X collection (QueryTexts [text']) 1))
             (\<lambda>retrieved st'. (return_best_match (self st') retrieved, st'))
             st)"

subsection \<open>A reference backend\<close>

text \<open>
  Modelled from the spec: the backend and the embedding provider are third-party code; the
  spec's section 6 names what the class consumes (\<^verbatim>\<open>get_or_create_collection\<close>,
  \<^verbatim>\<open>add\<close>, \<^verbatim>\<open>query\<close>, \<^verbatim>\<open>embed\<close>). The statements about the class hold for every
  collaborator where they can; this in-memory backend is one instance, on which the class
  can be run end to end. A collection keeps one row per id, in insertion order. As Chroma
  does, \<^verbatim>\<open>add\<close> takes text documents only and refuses a call that lists an id twice. What
  it does with an id that is already stored is a parameter: the stored row stays
  (\<open>KeepExisting\<close>, as Chroma's \<^verbatim>\<open>add\<close> does) or is replaced (\<open>Overwrite\<close>). A query answers,
  for each query vector, the \<open>n_results\<close> nearest rows, nearest first, column by column.
\<close>

record ('v, 'm) stored_row =
  row_embedding :: 'v
  row_document :: string
  row_metadata :: "'m row_meta"

record ('v, 'm) collection_state =
  collection_metadata :: "(string \<times> distance_method) list"
  collection_rows :: "(string \<times> ('v, 'm) stored_row) list"

type_synonym ('v, 'm) backend = "(string \<times> ('v, 'm) collection_state) list"

datatype add_policy = KeepExisting | Overwrite

definition keep_existing :: "'a \<Rightarrow> 'b \<Rightarrow> ('a \<times> 'b) list \<Rightarrow> ('a \<times> 'b) list" where
  "keep_existing k v al = (case map_of al k of None \<Rightarrow> al @ [(k, v)] | Some _ \<Rightarrow> al)"

definition add_rows ::
  "add_policy \<Rightarrow> ('a \<times> 'b) list \<Rightarrow> ('a \<times> 'b) list \<Rightarrow> ('a \<times> 'b) list" where
  "add_rows policy new al =
     (case policy of
        KeepExisting \<Rightarrow> fold (\<lambda>(k, v). keep_existing k v) new al
      | Overwrite \<Rightarrow> fold (\<lambda>(k, v). AList.update k v) new al)"

definition backend_get_or_create_collection ::
  "nat \<Rightarrow> string \<Rightarrow> (string \<times> distance_method) list \<Rightarrow> nat option \<Rightarrow> ('v, 'm) backend
     \<Rightarrow> (py_error + string) \<times> ('v, 'm) backend" where
  "backend_get_or_create_collection client name md ef w =
     (case map_of w name of
        Some _ \<Rightarrow> (Inr name, w)
      | None \<Rightarrow> (Inr name, w @ [(name, \<lparr>collection_metadata = md, collection_rows = []\<rparr>)]))"

text \<open>The text of a document, if it is one.\<close>

definition payload_text :: "payload \<Rightarrow> string option" where
  "payload_text p = (case p of Text t \<Rightarrow> Some t | Numeric _ \<Rightarrow> None)"

definition written_rows ::
  "string list \<Rightarrow> 'v list \<Rightarrow> string list \<Rightarrow> 'm row_meta list \<Rightarrow> (string \<times> ('v, 'm) stored_row) list" where
  "written_rows ids vs texts metas =
     zip ids
       (map (\<lambda>(v, d, m). \<lparr>row_embedding = v, row_document = d, row_metadata = m\<rparr>)
          (zip vs (zip texts metas)))"

definition backend_add ::
  "add_policy \<Rightarrow> (string \<Rightarrow> 'v) \<Rightarrow> string \<Rightarrow> string list \<Rightarrow> 'v list option \<Rightarrow> payload list
     \<Rightarrow> 'm row_meta list \<Rightarrow> ('v, 'm) backend \<Rightarrow> (py_error + unit) \<times> ('v, 'm) backend" where
  "backend_add policy embedder name ids embeddings docs metas w =
     (case map_of w name of
        None \<Rightarrow> (Inl (CollaboratorError ''no such collection''), w)
      | Some col \<Rightarrow>
          (case those (map payload_text docs) of
             None \<Rightarrow> (Inl (CollaboratorError ''a document is not text''), w)
           | Some texts \<Rightarrow>
               if \<not> distinct ids then (Inl (CollaboratorError ''DuplicateIDError''), w)
               else
                 (let vs = (case embeddings of Some es \<Rightarrow> es | None \<Rightarrow> map embedder texts)
                  in (Inr (),
                      AList.update name
                        (col\<lparr>collection_rows :=
                               add_rows policy (written_rows ids vs texts metas)
                                 (collection_rows col)\<rparr>)
                        w))))"

text \<open>The rows ordered by their distance from the query vector; rows at the same distance
  keep their insertion order.\<close>

definition nearest ::
  "('v \<Rightarrow> 'v \<Rightarrow> real) \<Rightarrow> 'v \<Rightarrow> nat \<Rightarrow> ('v, 'm) stored_row list \<Rightarrow> ('v, 'm) stored_row list" where
  "nearest distance q n rs = take n (sort_key (\<lambda>r. distance q (row_embedding r)) rs)"

definition backend_query ::
  "(string \<Rightarrow> 'v) \<Rightarrow> ('v \<Rightarrow> 'v \<Rightarrow> real) \<Rightarrow> string \<Rightarrow> 'v query_by \<Rightarrow> int \<Rightarrow> ('v, 'm) backend
     \<Rightarrow> (py_error + 'm QueryResult) \<times> ('v, 'm) backend" where
  "backend_query embedder distance name q n w =
     (case map_of w name of
        None \<Rightarrow> (Inl (CollaboratorError ''no such collection''), w)
      | Some col \<Rightarrow>
          (let qs = (case q of QueryEmbeddings vs \<Rightarrow> vs | QueryTexts ts \<Rightarrow> map embedder ts);
               found = map (\<lambda>qv. (qv, nearest distance qv (nat n) (map snd (collection_rows col)))) qs
           in (Inr \<lparr>documents = Some (map (\<lambda>(qv, rs). map row_document rs) found),
                     metadatas = Some (map (\<lambda>(qv, rs). map row_metadata rs) found),
                     distances =
                       Some (map (\<lambda>(qv, rs). map (\<lambda>r. Finite (distance qv (row_embedding r))) rs)
                               found)\<rparr>,
               w)))"

definition backend_embed_text ::
  "(string \<Rightarrow> 'v) \<Rightarrow> nat \<Rightarrow> payload list \<Rightarrow> 'w \<Rightarrow> (py_error + 'v list) \<times> 'w" where
  "backend_embed_text embedder provider docs w =
     (case those (map payload_text docs) of
        None \<Rightarrow> (Inl (CollaboratorError ''a text is not a string''), w)
      | Some texts \<Rightarrow> (Inr (map embedder texts), w))"

text \<open>
  The collaborators around the reference backend: \<open>encode\<close> and \<open>digest\<close> stand for
  \<^verbatim>\<open>str.encode\<close> and \<^verbatim>\<open>sha256(...).hexdigest()\<close>, \<open>embedder\<close> is the embedding of a text (the
  provider's and the backend's own), \<open>distance\<close> the distance between two vectors.
\<close>

definition reference_collaborators ::
  "add_policy \<Rightarrow> (string \<Rightarrow> py_error + string) \<Rightarrow> (string \<Rightarrow> string) \<Rightarrow> (string \<Rightarrow> 'v)
     \<Rightarrow> ('v \<Rightarrow> 'v \<Rightarrow> real) \<Rightarrow> (('v, 'm) backend, string, 'v, 'm) collaborators" where
  "reference_collaborators policy encode digest embedder distance =
     \<lparr>encode_utf8 = encode,
      sha256_hexdigest = digest,
      get_or_create_collection = backend_get_or_create_collection,
      embed_text = backend_embed_text embedder,
      collection_add = backend_add policy embedder,
      collection_query = backend_query embedder distance\<rparr>"

text \<open>
  The instance used in the examples: a text is embedded as the one-dimensional vector of its
  length, the distance is the squared difference, the digest is a stand-in that marks its
  argument, and the encoder refuses a text that holds the character \<open>0xFF\<close> (the stand-in
  for a string that UTF-8 cannot encode).
\<close>

definition example_embed :: "string \<Rightarrow> real list" where
  "example_embed t = [real (length t)]"

definition example_dist :: "real list \<Rightarrow> real list \<Rightarrow> real" where
  "example_dist a b = sum_list (map (\<lambda>(x, y). (x - y) * (x - y)) (zip a b))"

definition example_encode :: "string \<Rightarrow> py_error + string" where
  "example_encode t = (if CHR 0xFF \<in> set t then Inl UnicodeEncodeError else Inr t)"

definition example_collaborators ::
  "add_policy \<Rightarrow> ((real list, 'm) backend, string, real list, 'm) collaborators" where
  "example_collaborators policy =
     reference_collaborators policy example_encode (\<lambda>b. ''sha256:'' @ b) example_embed example_dist"

definition example_store :: "embedding_function \<Rightarrow> pyfloat option \<Rightarrow> ChromaDBStore" where
  "example_store ef limit =
     \<lparr>index_name = ''docs'', chroma_client = 0, embedding_function = ef,
      max_distance = limit, metadata_private = [(''hnsw:space'', L2)]\<rparr>"

definition fresh ::
  "ChromaDBStore \<Rightarrow> ((real list, 'm) backend, string, real list, 'm) state" where
  "fresh s = \<lparr>self = s, world = [], trace = []\<rparr>"

definition apple :: "(string, nat) VectorDBEntry" where
  "apple = \<lparr>key = ''doc-1'', vector = Text ''apple'', metadata = 1\<rparr>"

definition banana :: "(string, nat) VectorDBEntry" where
  "banana = \<lparr>key = ''doc-2'', vector = Text ''banana'', metadata = 2\<rparr>"

definition apple_again :: "(string, nat) VectorDBEntry" where
  "apple_again = \<lparr>key = ''doc-3'', vector = Text ''apple'', metadata = 3\<rparr>"

definition numbers :: "(string, nat) VectorDBEntry" where
  "numbers = \<lparr>key = ''doc-4'', vector = Numeric [Finite 1, Finite 2], metadata = 4\<rparr>"

section \<open>The methods, call by call\<close>

text \<open>
  Each method written out as the sequence of calls it makes: what it returns and the state
  it leaves, by the answers of the collaborators.
\<close>

lemma get_chroma_collection_run:
  "get_chroma_collection X st =
     (let s = self st;
          ef = (case embedding_function s of Embeddings _ \<Rightarrow> None | EmbeddingFunction f \<Rightarrow> Some f)
      in case get_or_create_collection X (chroma_client s) (index_name s) (metadata_private s) ef
                (world st) of
           (r, w) \<Rightarrow>
             (r, st\<lparr>world := w,
                    trace := trace st @
                      [GetOrCreateCollection (chroma_client s) (index_name s) (metadata_private s)
                         ef r]\<rparr>))"
  by (simp add: get_chroma_collection_def perform_def Let_def split: embedding_function.splits)

lemma get_chroma_collection_self:
  "get_chroma_collection X st = (r, st1) \<Longrightarrow> self st1 = self st"
  by (auto simp: get_chroma_collection_run Let_def split: prod.splits)

lemma formatted_data_texts: "map item_text (formatted_data entries) = map vector entries"
  by (simp add: formatted_data_def comp_def)

lemma formatted_data_metadata:
  "map item_metadata (formatted_data entries) =
     map (\<lambda>e. \<lparr>meta_key = Some (key e), meta_metadata = Some (metadata e)\<rparr>) entries"
  by (simp add: formatted_data_def comp_def)

lemma store_run:
  "store X entries st =
     (case derive_ids X (formatted_data entries) of
        Inl e \<Rightarrow> (Inl e, st)
      | Inr ids \<Rightarrow>
          (let texts = map vector entries;
               metas = map (\<lambda>e. \<lparr>meta_key = Some (key e), meta_metadata = Some (metadata e)\<rparr>)
                         entries
           in case get_chroma_collection X st of
                (Inl e, st1) \<Rightarrow> (Inl e, st1)
              | (Inr c, st1) \<Rightarrow>
                  (case embedding_function (self st) of
                     Embeddings provider \<Rightarrow>
                       (case embed_text X provider texts (world st1) of
                          (Inl e, w) \<Rightarrow>
                            (Inl e, st1\<lparr>world := w,
                                        trace := trace st1 @ [EmbedText provider texts (Inl e)]\<rparr>)
                        | (Inr embeddings, w) \<Rightarrow>
                            (case collection_add X c ids (Some embeddings) texts metas w of
                               (r, w') \<Rightarrow>
                                 (r, st1\<lparr>world := w',
                                         trace := trace st1 @
                                           [EmbedText provider texts (Inr embeddings),
                                            CollectionAdd c ids (Some embeddings) texts metas r]\<rparr>)))
                   | EmbeddingFunction f \<Rightarrow>
                       (case collection_add X c ids None texts metas (world st1) of
                          (r, w') \<Rightarrow>
                            (r, st1\<lparr>world := w',
                                    trace := trace st1 @
                                      [CollectionAdd c ids None texts metas r]\<rparr>)))))"
proof (cases "get_chroma_collection X st")
  case (Pair r st1)
  then have "self st1 = self st" by (rule get_chroma_collection_self)
  with Pair show ?thesis
    by (simp add: store_def store_private_def formatted_data_texts formatted_data_metadata
        bind_exn_def perform_def Let_def
        split: prod.splits sum.splits embedding_function.splits)
qed

lemma find_similar_run:
  "find_similar X t st =
     (case get_chroma_collection X st of
        (Inl e, st1) \<Rightarrow> (Inl e, st1)
      | (Inr c, st1) \<Rightarrow>
          (case embedding_function (self st) of
             Embeddings provider \<Rightarrow>
               (case embed_text X provider [Text t] (world st1) of
                  (Inl e, w) \<Rightarrow>
                    (Inl e, st1\<lparr>world := w,
                                trace := trace st1 @ [EmbedText provider [Text t] (Inl e)]\<rparr>)
                | (Inr embedding, w) \<Rightarrow>
                    (case collection_query X c (QueryEmbeddings embedding) 1 w of
                       (r, w') \<Rightarrow>
                         (case r of Inl e \<Rightarrow> Inl e
                                  | Inr retrieved \<Rightarrow> return_best_match (self st) retrieved,
                          st1\<lparr>world := w',
                              trace := trace st1 @
                                [EmbedText provider [Text t] (Inr embedding),
                                 CollectionQuery c (QueryEmbeddings embedding) 1 r]\<rparr>)))
           | EmbeddingFunction f \<Rightarrow>
               (case collection_query X c (QueryTexts [t]) 1 (world st1) of
                  (r, w') \<Rightarrow>
                    (case r of Inl e \<Rightarrow> Inl e
                             | Inr retrieved \<Rightarrow> return_best_match (self st) retrieved,
                     st1\<lparr>world := w',
                         trace := trace st1 @ [CollectionQuery c (QueryTexts [t]) 1 r]\<rparr>))))"
proof (cases "get_chroma_collection X st")
  case (Pair r st1)
  then have "self st1 = self st" by (rule get_chroma_collection_self)
  with Pair show ?thesis
    by (simp add: find_similar_def bind_exn_def perform_def
        split: prod.splits sum.splits embedding_function.splits)
qed

lemma retrieve_run:
  "retrieve X v k st =
     (case get_chroma_collection X st of
        (Inl e, st1) \<Rightarrow> (Inl e, st1)
      | (Inr c, st1) \<Rightarrow>
          (case collection_query X c (QueryEmbeddings [v]) k (world st1) of
             (r, w') \<Rightarrow>
               (case r of
                  Inl e \<Rightarrow> Inl e
                | Inr query_result \<Rightarrow>
                    (case zip_columns (documents query_result) (metadatas query_result) of
                       Inl e \<Rightarrow> Inl e
                     | Inr pairs \<Rightarrow> retrieve_loop [] pairs),
                st1\<lparr>world := w',
                    trace := trace st1 @ [CollectionQuery c (QueryEmbeddings [v]) k r]\<rparr>)))"
  by (simp add: retrieve_def bind_exn_def perform_def split: prod.splits sum.splits)

lemma store_self: "self (snd (store X entries st)) = self st"
  by (simp add: store_run get_chroma_collection_run Let_def
      split: prod.splits sum.splits embedding_function.splits)

text \<open>
  What \<^verbatim>\<open>store\<close> does once the ids are derived, the collection is obtained and (with a
  provider) the texts are embedded: one \<^verbatim>\<open>add\<close> call, with these ids, the payloads as
  documents and the keys and metadata as the rows' metadata.
\<close>

lemma store_add_call:
  assumes ids: "derive_ids X (formatted_data entries) = Inr ids"
    and coll: "get_or_create_collection X (chroma_client (self st)) (index_name (self st))
        (metadata_private (self st))
        (case embedding_function (self st) of Embeddings _ \<Rightarrow> None | EmbeddingFunction f \<Rightarrow> Some f)
        (world st) = (Inr c, w1)"
    and emb: "case embedding_function (self st) of
        Embeddings p \<Rightarrow>
          \<exists>es. embed_text X p (map vector entries) w1 = (Inr es, w2) \<and> embeddings = Some es \<and>
               embed_calls = [EmbedText p (map vector entries) (Inr es)]
      | EmbeddingFunction f \<Rightarrow> w2 = w1 \<and> embeddings = None \<and> embed_calls = []"
  shows "store X entries st =
     (case collection_add X c ids embeddings (map vector entries)
             (map (\<lambda>e. \<lparr>meta_key = Some (key e), meta_metadata = Some (metadata e)\<rparr>) entries)
             w2 of
        (answer, w3) \<Rightarrow>
          (answer,
           st\<lparr>world := w3,
              trace := trace st @
                [GetOrCreateCollection (chroma_client (self st)) (index_name (self st))
                   (metadata_private (self st))
                   (case embedding_function (self st) of
                      Embeddings _ \<Rightarrow> None | EmbeddingFunction f \<Rightarrow> Some f)
                   (Inr c)] @
                embed_calls @
                [CollectionAdd c ids embeddings (map vector entries)
                   (map (\<lambda>e. \<lparr>meta_key = Some (key e), meta_metadata = Some (metadata e)\<rparr>)
                      entries)
                   answer]\<rparr>))"
proof (cases "embedding_function (self st)")
  case (Embeddings p)
  with emb obtain es where "embed_text X p (map vector entries) w1 = (Inr es, w2)"
    "embeddings = Some es" "embed_calls = [EmbedText p (map vector entries) (Inr es)]"
    by auto
  with ids coll Embeddings show ?thesis
    by (simp add: store_run get_chroma_collection_run Let_def split: prod.splits)
next
  case (EmbeddingFunction f)
  with emb have "w2 = w1" "embeddings = None" "embed_calls = []" by auto
  with ids coll EmbeddingFunction show ?thesis
    by (simp add: store_run get_chroma_collection_run Let_def split: prod.splits)
qed

text \<open>
  An answer with no row makes \<^verbatim>\<open>_return_best_match\<close> raise, with or without a threshold;
  and the loop of \<^verbatim>\<open>retrieve\<close>, where it does not raise, adds one entry per inner list it
  is given, that is per query vector, however many rows the list holds.
\<close>

lemma return_best_match_empty:
  "return_best_match s \<lparr>documents = Some [[]], metadatas = ms, distances = Some [[]]\<rparr> =
     Inl IndexError"
  by (simp add: return_best_match_def subscript_0_0_def split: option.splits)

lemma retrieve_loop_length:
  "retrieve_loop acc pairs = Inr entries \<Longrightarrow> length entries = length acc + length pairs"
  by (induction acc pairs rule: retrieve_loop.induct) (auto split: list.splits)

section \<open>The ids of a batch\<close>

text \<open>
  The ids depend on the payloads only; where they are derived, every payload is a text
  that was encoded, and each id is the digest of the encoding of its payload.
\<close>

lemma derive_ids_payloads:
  "map item_text xs = map item_text ys \<Longrightarrow> derive_ids X xs = derive_ids X ys"
proof (induction xs arbitrary: ys)
  case Nil
  then show ?case by simp
next
  case (Cons x xs)
  then obtain y ys' where ys: "ys = y # ys'" by (cases ys) auto
  with Cons.prems have "item_text x = item_text y" "map item_text xs = map item_text ys'"
    by simp_all
  with Cons.IH [of ys'] ys show ?case by (simp split: sum.splits)
qed

lemma derive_ids_hashes:
  "derive_ids X items = Inr ids \<Longrightarrow>
   list_all2 (\<lambda>item i. \<exists>t b. item_text item = Text t \<and> encode_utf8 X t = Inr b \<and>
                              i = sha256_hexdigest X b) items ids"
proof (induction items arbitrary: ids)
  case Nil
  then show ?case by simp
next
  case (Cons item items)
  from Cons.prems obtain b rest where
    b: "encode_payload X (item_text item) = Inr b" and
    rest: "derive_ids X items = Inr rest" and
    ids: "ids = sha256_hexdigest X b # rest"
    by (auto split: sum.splits)
  from b obtain t where "item_text item = Text t" "encode_utf8 X t = Inr b"
    by (auto simp: encode_payload_def split: payload.splits)
  with Cons.IH [OF rest] ids show ?case by auto
qed

lemma derive_ids_texts:
  "derive_ids X items = Inr ids \<Longrightarrow>
   \<exists>texts. map item_text items = map Text texts \<and> length ids = length items"
proof (induction items arbitrary: ids)
  case Nil
  then show ?case by simp
next
  case (Cons item items)
  from Cons.prems obtain b rest where
    b: "encode_payload X (item_text item) = Inr b" and
    rest: "derive_ids X items = Inr rest" and
    ids: "ids = sha256_hexdigest X b # rest"
    by (auto split: sum.splits)
  from b obtain t where t: "item_text item = Text t"
    by (auto simp: encode_payload_def split: payload.splits)
  from Cons.IH [OF rest] obtain texts where
    "map item_text items = map Text texts" "length rest = length items" by auto
  with t ids have "map item_text (item # items) = map Text (t # texts) \<and>
      length ids = length (item # items)" by simp
  then show ?case by (rule exI)
qed

lemma derive_ids_formatted:
  assumes "derive_ids X (formatted_data entries) = Inr ids"
  shows "\<exists>texts. map vector entries = map Text texts \<and> length ids = length entries"
proof -
  from derive_ids_texts [OF assms] obtain texts where
    a: "map item_text (formatted_data entries) = map Text texts" and
    b: "length ids = length (formatted_data entries)" by auto
  from a have "map vector entries = map Text texts" by (simp only: formatted_data_texts)
  moreover from b have "length ids = length entries" by (simp add: formatted_data_def)
  ultimately have "map vector entries = map Text texts \<and> length ids = length entries" ..
  then show ?thesis by (rule exI)
qed

section \<open>The reference backend keeps one row per id\<close>


lemma fold_update_keys:
  "fst ` set (fold (\<lambda>(k, v). AList.update k v) new al) = fst ` set new \<union> fst ` set al"
proof (induction new arbitrary: al)
  case Nil
  then show ?case by simp
next
  case (Cons p new)
  obtain k v where p: "p = (k, v)" by (cases p)
  show ?case by (simp add: p Cons.IH dom_update)
qed




lemma keep_existing_keys: "fst ` set (keep_existing k v al) = insert k (fst ` set al)"
proof (cases "map_of al k")
  case None
  then show ?thesis by (simp add: keep_existing_def)
next
  case (Some x)
  then have "k \<in> fst ` set al" by (metis domI dom_map_of_conv_image_fst)
  with Some show ?thesis by (auto simp: keep_existing_def)
qed

lemma fold_keep_existing_keys:
  "fst ` set (fold (\<lambda>(k, v). keep_existing k v) new al) = fst ` set new \<union> fst ` set al"
proof (induction new arbitrary: al)
  case Nil
  then show ?case by simp
next
  case (Cons p new)
  obtain k v where p: "p = (k, v)" by (cases p)
  show ?case by (simp add: p Cons.IH keep_existing_keys)
qed

lemma fold_keep_existing_present:
  "fst ` set new \<subseteq> fst ` set al \<Longrightarrow> fold (\<lambda>(k, v). keep_existing k v) new al = al"
proof (induction new arbitrary: al)
  case Nil
  then show ?case by simp
next
  case (Cons p new)
  obtain k v where p: "p = (k, v)" by (cases p)
  from Cons.prems p have "k \<in> fst ` set al" by simp
  then have "map_of al k \<noteq> None" by (simp add: map_of_eq_None_iff)
  then have "keep_existing k v al = al"
    by (auto simp: keep_existing_def split: option.splits)
  moreover from Cons.prems have "fst ` set new \<subseteq> fst ` set al" by simp
  ultimately show ?case using Cons.IH [of al] by (simp add: p)
qed


lemma add_rows_keys: "fst ` set (add_rows policy new al) = fst ` set new \<union> fst ` set al"
  by (cases policy) (simp_all add: add_rows_def fold_keep_existing_keys fold_update_keys)

lemma fold_update_same_ids:
  "fst ` set new \<subseteq> fst ` set al \<Longrightarrow>
   map fst (fold (\<lambda>(k, v). AList.update k v) new al) = map fst al"
proof (induction new arbitrary: al)
  case Nil
  then show ?case by simp
next
  case (Cons p new)
  obtain k v where p: "p = (k, v)" by (cases p)
  from Cons.prems p have present: "k \<in> fst ` set al" by simp
  then have same: "map fst (AList.update k v al) = map fst al"
    by (simp add: update_keys)
  then have "fst ` set (AList.update k v al) = fst ` set al"
    by (metis list.set_map)
  with Cons.prems have "fst ` set new \<subseteq> fst ` set (AList.update k v al)" by simp
  from Cons.IH [OF this] same show ?case by (simp add: p)
qed

lemma add_rows_same_ids:
  "fst ` set new \<subseteq> fst ` set al \<Longrightarrow> map fst (add_rows policy new al) = map fst al"
  by (cases policy) (simp_all add: add_rows_def fold_keep_existing_present fold_update_same_ids)


lemma update_same_ids:
  "map_of w n = Some col \<Longrightarrow> f col' = f col \<Longrightarrow>
   map (\<lambda>(n, col). (n, f col)) (AList.update n col' w) = map (\<lambda>(n, col). (n, f col)) w"
  by (induction w) (auto split: if_splits)

lemma written_rows_keys:
  "length vs = length ids \<Longrightarrow> length texts = length ids \<Longrightarrow> length metas = length ids \<Longrightarrow>
   map fst (written_rows ids vs texts metas) = ids"
  by (simp add: written_rows_def)




section \<open>The class on the reference backend\<close>

lemmas backend_defs = reference_collaborators_def backend_get_or_create_collection_def
  backend_add_def backend_query_def backend_embed_text_def

lemmas method_defs = store_def store_private_def formatted_data_def get_chroma_collection_def
  perform_def bind_exn_def retrieve_def find_similar_def return_best_match_def
  subscript_0_0_def zip_columns_def encode_payload_def Let_def

lemmas example_defs = example_collaborators_def example_store_def fresh_def
  nearest_def add_rows_def keep_existing_def written_rows_def payload_text_def
  example_embed_def example_dist_def example_encode_def
  apple_def banana_def apple_again_def numbers_def

lemma those_payload_text_comp: "those (map (payload_text \<circ> Text) texts) = Some texts"
  by (induction texts) (simp_all add: payload_text_def)

text \<open>
  \<^verbatim>\<open>store\<close> on the reference backend, where the collection exists and where it does not:
  a batch that lists an id twice is refused, any other batch is added.
\<close>

lemma reference_store_present:
  fixes s :: "(('v, 'm) backend, string, 'v, 'm) state"
  assumes ids: "derive_ids (reference_collaborators policy encode digest embedder distance
        :: (('v, 'm) backend, string, 'v, 'm) collaborators) (formatted_data entries) = Inr ids"
    and texts: "map vector entries = map Text texts"
    and col: "map_of (world s) (index_name (self s)) = Some col"
  shows "fst (store (reference_collaborators policy encode digest embedder distance) entries s) =
     (if distinct ids then Inr () else Inl (CollaboratorError ''DuplicateIDError'')) \<and>
     world (snd (store (reference_collaborators policy encode digest embedder distance) entries s)) =
           (if distinct ids
            then AList.update (index_name (self s))
                   (col\<lparr>collection_rows :=
                          add_rows policy
                            (written_rows ids (map embedder texts) texts
                               (map (\<lambda>e. \<lparr>meta_key = Some (key e),
                                           meta_metadata = Some (metadata e)\<rparr>) entries))
                            (collection_rows col)\<rparr>)
                   (world s)
            else world s)"
  using ids texts col
  by (cases "embedding_function (self s)")
    (simp_all add: store_run get_chroma_collection_run backend_defs Let_def those_payload_text_comp)

lemma reference_store_absent:
  fixes s :: "(('v, 'm) backend, string, 'v, 'm) state"
  assumes ids: "derive_ids (reference_collaborators policy encode digest embedder distance
        :: (('v, 'm) backend, string, 'v, 'm) collaborators) (formatted_data entries) = Inr ids"
    and texts: "map vector entries = map Text texts"
    and col: "map_of (world s) (index_name (self s)) = None"
  shows "fst (store (reference_collaborators policy encode digest embedder distance) entries s) =
     (if distinct ids then Inr () else Inl (CollaboratorError ''DuplicateIDError'')) \<and>
     world (snd (store (reference_collaborators policy encode digest embedder distance) entries s)) =
           (if distinct ids
            then AList.update (index_name (self s))
                   \<lparr>collection_metadata = metadata_private (self s),
                    collection_rows =
                      add_rows policy
                        (written_rows ids (map embedder texts) texts
                           (map (\<lambda>e. \<lparr>meta_key = Some (key e),
                                       meta_metadata = Some (metadata e)\<rparr>) entries))
                        []\<rparr>
                   (world s @ [(index_name (self s),
                      \<lparr>collection_metadata = metadata_private (self s), collection_rows = []\<rparr>)])
            else world s @ [(index_name (self s),
                   \<lparr>collection_metadata = metadata_private (self s), collection_rows = []\<rparr>)])"
  using ids texts col
  by (cases "embedding_function (self s)")
    (simp_all add: store_run get_chroma_collection_run backend_defs Let_def those_payload_text_comp
      map_add_def)

text \<open>
  A batch with distinct ids is stored: afterwards the collection exists and holds every id
  of the batch. Storing it again changes nothing, and a later batch with the same payloads
  adds no id.
\<close>

lemma reference_store_writes_ids:
  fixes st :: "(('v, 'm) backend, string, 'v, 'm) state"
    and policy encode digest embedder distance
  defines "R \<equiv> reference_collaborators policy encode digest embedder distance"
  assumes ids: "derive_ids R (formatted_data entries) = Inr ids"
    and distinct: "distinct ids"
  shows "fst (store R entries st) = Inr () \<and>
     (\<exists>col. map_of (world (snd (store R entries st))) (index_name (self st)) = Some col \<and>
            set ids \<subseteq> fst ` set (collection_rows col))"
proof -
  from derive_ids_formatted [OF ids] obtain texts where
    texts: "map vector entries = map Text texts" and len: "length ids = length entries"
    by auto
  from texts have len_texts: "length texts = length entries" by (metis length_map)
  define new :: "(string \<times> ('v, 'm) stored_row) list" where
    "new = written_rows ids (map embedder texts) texts
             (map (\<lambda>e. \<lparr>meta_key = Some (key e), meta_metadata = Some (metadata e)\<rparr>) entries)"
  have "map fst new = ids" unfolding new_def
    by (rule written_rows_keys) (simp_all add: len len_texts)
  then have keys: "fst ` set new = set ids" by (metis list.set_map)
  show ?thesis
  proof (cases "map_of (world st) (index_name (self st))")
    case None
    from reference_store_absent [OF ids [unfolded R_def] texts None, folded R_def new_def]
      distinct keys
    show ?thesis by (simp add: update_conv' add_rows_keys)
  next
    case (Some col)
    from reference_store_present [OF ids [unfolded R_def] texts Some, folded R_def new_def]
      distinct keys
    show ?thesis by (simp add: update_conv' add_rows_keys)
  qed
qed


lemma reference_store_later_write:
  fixes st :: "(('v, 'm) backend, string, 'v, 'm) state"
    and policy encode digest embedder distance
  defines "R \<equiv> reference_collaborators policy encode digest embedder distance"
  assumes same: "map vector entries' = map vector entries"
  shows "map (\<lambda>(n, col). (n, map fst (collection_rows col)))
           (world (snd (store R entries' (snd (store R entries st))))) =
         map (\<lambda>(n, col). (n, map fst (collection_rows col)))
           (world (snd (store R entries st)))"
proof -
  from same have items: "map item_text (formatted_data entries') =
      map item_text (formatted_data entries)"
    by (simp only: formatted_data_texts)
  have ids': "derive_ids R (formatted_data entries') = derive_ids R (formatted_data entries)"
    using items by (rule derive_ids_payloads)
  show ?thesis
  proof (cases "derive_ids R (formatted_data entries)")
    case (Inl e)
    with ids' show ?thesis by (simp add: store_run)
  next
    case (Inr ids)
    with ids' have Inr': "derive_ids R (formatted_data entries') = Inr ids" by simp
    from derive_ids_formatted [OF Inr] obtain texts where
      texts: "map vector entries = map Text texts" and len: "length ids = length entries"
      by auto
    from texts same have texts': "map vector entries' = map Text texts" by simp
    from derive_ids_formatted [OF Inr'] have len': "length ids = length entries'" by auto
    from texts have len_texts: "length texts = length entries" by (metis length_map)
    define new :: "(string \<times> ('v, 'm) stored_row) list" where
      "new = written_rows ids (map embedder texts) texts
               (map (\<lambda>e. \<lparr>meta_key = Some (key e), meta_metadata = Some (metadata e)\<rparr>) entries)"
    define new' :: "(string \<times> ('v, 'm) stored_row) list" where
      "new' = written_rows ids (map embedder texts) texts
               (map (\<lambda>e. \<lparr>meta_key = Some (key e), meta_metadata = Some (metadata e)\<rparr>) entries')"
    have keys: "map fst new = ids" unfolding new_def
      by (rule written_rows_keys) (simp_all add: len len_texts)
    have keys': "map fst new' = ids" unfolding new'_def
      by (rule written_rows_keys) (simp_all add: len len_texts len' [symmetric])
    let ?n = "index_name (self st)"
    let ?st1 = "snd (store R entries st)"
    have self1: "self ?st1 = self st" by (rule store_self)
    note present = reference_store_present [OF Inr [unfolded R_def] texts, folded R_def new_def,
        THEN conjunct2]
    note absent = reference_store_absent [OF Inr [unfolded R_def] texts, folded R_def new_def,
        THEN conjunct2]
    note present' = reference_store_present [OF Inr' [unfolded R_def] texts',
        folded R_def new'_def, THEN conjunct2]
    show ?thesis
    proof (cases "distinct ids")
      case False
      have "\<exists>col. map_of (world ?st1) ?n = Some col"
      proof (cases "map_of (world st) ?n")
        case None
        with False show ?thesis by (simp add: absent map_add_def)
      next
        case (Some col)
        with False show ?thesis by (simp add: present)
      qed
      then obtain col where "map_of (world ?st1) (index_name (self ?st1)) = Some col"
        using self1 by auto
      from present' [OF this] False show ?thesis by simp
    next
      case True
      have "\<exists>col. map_of (world ?st1) ?n =
              Some (col\<lparr>collection_rows := add_rows policy new (collection_rows col)\<rparr>)"
      proof (cases "map_of (world st) ?n")
        case None
        with True show ?thesis
          by (simp add: absent update_conv')
            (rule exI [of _ "\<lparr>collection_metadata = metadata_private (self st),
                               collection_rows = []\<rparr>"], simp)
      next
        case (Some col)
        with True show ?thesis by (auto simp: present update_conv')
      qed
      then obtain col where stored: "map_of (world ?st1) ?n =
          Some (col\<lparr>collection_rows := add_rows policy new (collection_rows col)\<rparr>)" ..
      let ?col1 = "col\<lparr>collection_rows := add_rows policy new (collection_rows col)\<rparr>"
      from stored self1 have stored': "map_of (world ?st1) (index_name (self ?st1)) = Some ?col1"
        by simp
      from keys keys' have "fst ` set new' = fst ` set new" by (metis list.set_map)
      then have "fst ` set new' \<subseteq> fst ` set (collection_rows ?col1)"
        by (simp add: add_rows_keys)
      then have kept: "map fst (add_rows policy new' (collection_rows ?col1)) =
          map fst (collection_rows ?col1)"
        by (rule add_rows_same_ids)
      from present' [OF stored'] True self1
      have "world (snd (store R entries' ?st1)) =
          AList.update ?n
            (?col1\<lparr>collection_rows := add_rows policy new' (collection_rows ?col1)\<rparr>)
            (world ?st1)"
        by simp
      moreover have "map (\<lambda>(n, col). (n, map fst (collection_rows col)))
            (AList.update ?n
               (?col1\<lparr>collection_rows := add_rows policy new' (collection_rows ?col1)\<rparr>)
               (world ?st1)) =
          map (\<lambda>(n, col). (n, map fst (collection_rows col))) (world ?st1)"
        using kept
        by (intro update_same_ids [where f = "\<lambda>col. map fst (collection_rows col)", OF stored])
          simp
      ultimately show ?thesis by simp
    qed
  qed
qed


section \<open>The claims\<close>

text \<open>
  C1 (the code departs from the claim). On an empty answer of the 1-nearest-neighbour query
  (no documents, no distances) \<^verbatim>\<open>find_similar\<close> does not return \<^verbatim>\<open>None\<close>: the subscript
  \<^verbatim>\<open>[0][0]\<close> of \<^verbatim>\<open>_return_best_match\<close> raises \<open>IndexError\<close>, with and without
  \<^verbatim>\<open>max_distance\<close>, with either kind of embedding function. The run below is against the
  reference backend with no row in the collection; its trace shows the empty answer.
\<close>

theorem find_similar_empty_result_raises:
  "find_similar (example_collaborators KeepExisting) ''apple''
     (fresh (example_store (Embeddings 7) None)
        :: ((real list, nat) backend, string, real list, nat) state) =
   (Inl IndexError,
    \<lparr>self = example_store (Embeddings 7) None,
     world = [(''docs'', \<lparr>collection_metadata = [(''hnsw:space'', L2)], collection_rows = []\<rparr>)],
     trace =
       [GetOrCreateCollection 0 ''docs'' [(''hnsw:space'', L2)] None (Inr ''docs''),
        EmbedText 7 [Text ''apple''] (Inr [[5]]),
        CollectionQuery ''docs'' (QueryEmbeddings [[5]]) 1
          (Inr \<lparr>documents = Some [[]], metadatas = Some [[]], distances = Some [[]]\<rparr>)]\<rparr>) \<and>
   fst (find_similar (example_collaborators KeepExisting) ''apple''
     (fresh (example_store (Embeddings 7) (Some (Finite 1)))
        :: ((real list, nat) backend, string, real list, nat) state)) = Inl IndexError \<and>
   fst (find_similar (example_collaborators KeepExisting) ''apple''
     (fresh (example_store (EmbeddingFunction 8) None)
        :: ((real list, nat) backend, string, real list, nat) state)) = Inl IndexError \<and>
   fst (find_similar (example_collaborators KeepExisting) ''apple''
     (fresh (example_store (EmbeddingFunction 8) (Some (Finite 1)))
        :: ((real list, nat) backend, string, real list, nat) state)) = Inl IndexError"
  by (simp add: method_defs example_defs backend_defs)

text \<open>
  C2 (the code departs from the claim). \<^verbatim>\<open>retrieve\<close> walks over the outer lists of the
  column-first answer, one per query vector, and reads the first element of each: with two
  rows stored and \<open>k = 5\<close> the backend answers two rows and \<^verbatim>\<open>retrieve\<close> returns one
  entry; with no row stored it raises \<open>IndexError\<close> instead of returning no entry.
\<close>

theorem retrieve_returns_one_entry_for_two_rows:
  "retrieve (example_collaborators KeepExisting) [5] 5
     (snd (store (example_collaborators KeepExisting) [apple, banana]
        (fresh (example_store (Embeddings 7) None)))) =
   (Inr [\<lparr>key = Some ''doc-1'', vector = Text ''apple'', metadata = Some 1\<rparr>],
    \<lparr>self = example_store (Embeddings 7) None,
     world =
       [(''docs'',
         \<lparr>collection_metadata = [(''hnsw:space'', L2)],
          collection_rows =
            [(''sha256:apple'',
              \<lparr>row_embedding = [5], row_document = ''apple'',
               row_metadata = \<lparr>meta_key = Some ''doc-1'', meta_metadata = Some 1\<rparr>\<rparr>),
             (''sha256:banana'',
              \<lparr>row_embedding = [6], row_document = ''banana'',
               row_metadata = \<lparr>meta_key = Some ''doc-2'', meta_metadata = Some 2\<rparr>\<rparr>)]\<rparr>)],
     trace =
       [GetOrCreateCollection 0 ''docs'' [(''hnsw:space'', L2)] None (Inr ''docs''),
        EmbedText 7 [Text ''apple'', Text ''banana''] (Inr [[5], [6]]),
        CollectionAdd ''docs'' [''sha256:apple'', ''sha256:banana''] (Some [[5], [6]])
          [Text ''apple'', Text ''banana'']
          [\<lparr>meta_key = Some ''doc-1'', meta_metadata = Some 1\<rparr>,
           \<lparr>meta_key = Some ''doc-2'', meta_metadata = Some 2\<rparr>] (Inr ()),
        GetOrCreateCollection 0 ''docs'' [(''hnsw:space'', L2)] None (Inr ''docs''),
        CollectionQuery ''docs'' (QueryEmbeddings [[5]]) 5
          (Inr \<lparr>documents = Some [[''apple'', ''banana'']],
                metadatas = Some [[\<lparr>meta_key = Some ''doc-1'', meta_metadata = Some 1\<rparr>,
                                   \<lparr>meta_key = Some ''doc-2'', meta_metadata = Some 2\<rparr>]],
                distances = Some [[Finite 0, Finite 1]]\<rparr>)]\<rparr>) \<and>
   fst (retrieve (example_collaborators KeepExisting) [5] 5
     (fresh (example_store (Embeddings 7) None)
        :: ((real list, nat) backend, string, real list, nat) state)) = Inl IndexError"
  by (simp add: method_defs example_defs backend_defs)










text \<open>
  C7 (the code departs from the claim). Where \<^verbatim>\<open>chromadb\<close> is not installed, constructing
  the store does not raise the configuration error of \<^verbatim>\<open>__init__\<close> (\<open>ImportError\<close>):
  importing the module already raises \<open>NameError\<close>, at the annotations of the class body,
  so the guard of \<^verbatim>\<open>__init__\<close> is never reached with the flag false. Where it is
  installed, construction returns the store with the attributes it was given, and the
  distance method becomes the \<^verbatim>\<open>hnsw:space\<close> entry of the collection metadata.
\<close>

theorem construction_without_chromadb:
  "import_module False = Inl NameError \<and>
   construct False name client ef limit method = Inl NameError \<and>
   ChromaDBStore_init False name client ef limit method = Inl ImportError \<and>
   construct True name client ef limit method =
     Inr \<lparr>index_name = name, chroma_client = client, embedding_function = ef,
          max_distance = limit, metadata_private = [(''hnsw:space'', method)]\<rparr>"
  by (simp add: construct_def import_module_def ChromaDBStore_init_def)

text \<open>
  C8 as stated fails for \<^verbatim>\<open>store\<close>: the ids are derived before the collection is asked
  for, and a payload that is not a text, or a text that cannot be encoded, ends \<^verbatim>\<open>store\<close>
  with no call at all, so the collection is not created.
\<close>

theorem store_first_call_counterexample:
  "store (example_collaborators KeepExisting) [numbers] (fresh (example_store (Embeddings 7) None)) =
     (Inl AttributeError, fresh (example_store (Embeddings 7) None)) \<and>
   store (example_collaborators KeepExisting)
       [\<lparr>key = ''doc-5'', vector = Text [CHR ''a'', CHR 0xFF], metadata = 5\<rparr>]
       (fresh (example_store (EmbeddingFunction 8) None)) =
     (Inl UnicodeEncodeError, fresh (example_store (EmbeddingFunction 8) None)) \<and>
   \<not> (\<exists>answer rest.
         trace (snd (store (example_collaborators KeepExisting) [numbers]
                  (fresh (example_store (Embeddings 7) None)))) =
         trace (fresh (example_store (Embeddings 7) None)
                  :: ((real list, nat) backend, string, real list, nat) state) @
         GetOrCreateCollection 0 ''docs'' [(''hnsw:space'', L2)] None answer # rest)"
  by (simp add: store_def store_private_def formatted_data_def encode_payload_def
      example_collaborators_def reference_collaborators_def example_encode_def numbers_def
      fresh_def)

text \<open>
  C8, amended. For a store built by the constructor, the first call of \<^verbatim>\<open>retrieve\<close> and
  of \<^verbatim>\<open>find_similar\<close>, and of \<^verbatim>\<open>store\<close> whenever the ids of the batch are derived, is
  \<^verbatim>\<open>get_or_create_collection\<close> on the configured client, with the configured index name and
  the metadata \<^verbatim>\<open>{"hnsw:space": distance_method}\<close>, made in the world as the method found
  it; where the ids are not derived, \<^verbatim>\<open>store\<close> raises and leaves the state as it was.
\<close>

theorem entry_points_get_or_create_first:
  assumes "construct True name client ef limit method = Inr (self st)"
  shows "let ef_arg = (case ef of Embeddings _ \<Rightarrow> None | EmbeddingFunction f \<Rightarrow> Some f);
             first = GetOrCreateCollection client name [(''hnsw:space'', method)] ef_arg
               (fst (get_or_create_collection X client name [(''hnsw:space'', method)] ef_arg
                  (world st)))
         in (\<forall>e. derive_ids X (formatted_data entries) = Inl e \<longrightarrow>
               store X entries st = (Inl e, st)) \<and>
            (\<forall>ids. derive_ids X (formatted_data entries) = Inr ids \<longrightarrow>
               (\<exists>rest. trace (snd (store X entries st)) = trace st @ first # rest)) \<and>
            (\<exists>rest. trace (snd (retrieve X v k st)) = trace st @ first # rest) \<and>
            (\<exists>rest. trace (snd (find_similar X t st)) = trace st @ first # rest)"
proof -
  from assms have s: "self st = \<lparr>index_name = name, chroma_client = client, embedding_function = ef,
          max_distance = limit, metadata_private = [(''hnsw:space'', method)]\<rparr>"
    by (simp add: construct_def import_module_def ChromaDBStore_init_def)
  show ?thesis
    by (cases ef)
      (simp_all add: store_run retrieve_run find_similar_run get_chroma_collection_run Let_def s
        split: prod.splits sum.splits)
qed

text \<open>
  Witness for C8, amended: the three entry points on the reference backend, for a store
  with a provider and for a store with a backend-native embedding function and the cosine
  distance, and a batch that holds a numeric payload.
\<close>

theorem entry_points_get_or_create_first_witness:
  "construct True ''docs'' 0 (Embeddings 7) None L2 =
     Inr (self (fresh (example_store (Embeddings 7) None)
                  :: ((real list, nat) backend, string, real list, nat) state)) \<and>
   (\<exists>rest.
      trace (snd (store (example_collaborators KeepExisting) [apple, banana]
               (fresh (example_store (Embeddings 7) None)))) =
        GetOrCreateCollection 0 ''docs'' [(''hnsw:space'', L2)] None (Inr ''docs'') # rest) \<and>
   (\<exists>rest.
      trace (snd (retrieve (example_collaborators KeepExisting) [5] 5
               (fresh (example_store (Embeddings 7) None)
                  :: ((real list, nat) backend, string, real list, nat) state))) =
        GetOrCreateCollection 0 ''docs'' [(''hnsw:space'', L2)] None (Inr ''docs'') # rest) \<and>
   (\<exists>rest.
      trace (snd (find_similar (example_collaborators KeepExisting) ''apple''
               (fresh (example_store (Embeddings 7) None)
                  :: ((real list, nat) backend, string, real list, nat) state))) =
        GetOrCreateCollection 0 ''docs'' [(''hnsw:space'', L2)] None (Inr ''docs'') # rest) \<and>
   store (example_collaborators KeepExisting) [apple, numbers]
       (fresh (example_store (Embeddings 7) None)
          :: ((real list, nat) backend, string, real list, nat) state) =
     (Inl AttributeError, fresh (example_store (Embeddings 7) None)) \<and>
   construct True ''texts'' 3 (EmbeddingFunction 8) (Some (Finite 1)) Cosine =
     Inr (self (\<lparr>self = \<lparr>index_name = ''texts'', chroma_client = 3,
                           embedding_function = EmbeddingFunction 8,
                           max_distance = Some (Finite 1),
                           metadata_private = [(''hnsw:space'', Cosine)]\<rparr>,
                 world = [], trace = []\<rparr>
                  :: ((real list, nat) backend, string, real list, nat) state)) \<and>
   (\<exists>rest.
      trace (snd (store (example_collaborators KeepExisting) [apple, banana]
               (\<lparr>self = \<lparr>index_name = ''texts'', chroma_client = 3,
                           embedding_function = EmbeddingFunction 8,
                           max_distance = Some (Finite 1),
                           metadata_private = [(''hnsw:space'', Cosine)]\<rparr>,
                 world = [], trace = []\<rparr>
                  :: ((real list, nat) backend, string, real list, nat) state))) =
        GetOrCreateCollection 3 ''texts'' [(''hnsw:space'', Cosine)] (Some 8) (Inr ''texts'')
          # rest) \<and>
   (\<exists>rest.
      trace (snd (find_similar (example_collaborators KeepExisting) ''apple''
               (\<lparr>self = \<lparr>index_name = ''texts'', chroma_client = 3,
                           embedding_function = EmbeddingFunction 8,
                           max_distance = Some (Finite 1),
                           metadata_private = [(''hnsw:space'', Cosine)]\<rparr>,
                 world = [], trace = []\<rparr>
                  :: ((real list, nat) backend, string, real list, nat) state))) =
        GetOrCreateCollection 3 ''texts'' [(''hnsw:space'', Cosine)] (Some 8) (Inr ''texts'')
          # rest)"
proof -
  let ?K = "example_collaborators KeepExisting
              :: ((real list, nat) backend, string, real list, nat) collaborators"
  let ?provider = "fresh (example_store (Embeddings 7) None)
              :: ((real list, nat) backend, string, real list, nat) state"
  let ?native = "\<lparr>self = \<lparr>index_name = ''texts'', chroma_client = 3,
                           embedding_function = EmbeddingFunction 8,
                           max_distance = Some (Finite 1),
                           metadata_private = [(''hnsw:space'', Cosine)]\<rparr>,
                 world = [], trace = []\<rparr>
              :: ((real list, nat) backend, string, real list, nat) state"
  have made: "construct True ''docs'' 0 (Embeddings 7) None L2 = Inr (self ?provider)"
    by (simp add: construct_def import_module_def ChromaDBStore_init_def example_defs)
  have made2: "construct True ''texts'' 3 (EmbeddingFunction 8) (Some (Finite 1)) Cosine =
      Inr (self ?native)"
    by (simp add: construct_def import_module_def ChromaDBStore_init_def)
  have ids: "derive_ids ?K (formatted_data [apple, banana]) =
      Inr [''sha256:apple'', ''sha256:banana'']"
    by (simp add: formatted_data_def encode_payload_def example_defs backend_defs)
  have no_ids: "derive_ids ?K (formatted_data [apple, numbers]) = Inl AttributeError"
    by (simp add: formatted_data_def encode_payload_def example_defs backend_defs)
  note p = entry_points_get_or_create_first [where X = ?K and entries = "[apple, banana]"
      and v = "[5]" and k = 5 and t = "''apple''", OF made, unfolded Let_def]
  note q = entry_points_get_or_create_first [where X = ?K and entries = "[apple, numbers]"
      and v = "[5]" and k = 5 and t = "''apple''", OF made, unfolded Let_def]
  note n = entry_points_get_or_create_first [where X = ?K and entries = "[apple, banana]"
      and v = "[5]" and k = 5 and t = "''apple''", OF made2, unfolded Let_def]
  from p [THEN conjunct2, THEN conjunct1, rule_format, OF ids]
  have p_store: "\<exists>rest. trace (snd (store ?K [apple, banana] ?provider)) =
      GetOrCreateCollection 0 ''docs'' [(''hnsw:space'', L2)] None (Inr ''docs'') # rest"
    by (simp add: example_defs backend_defs)
  from p [THEN conjunct2, THEN conjunct2, THEN conjunct1]
  have p_retrieve: "\<exists>rest. trace (snd (retrieve ?K [5] 5 ?provider)) =
      GetOrCreateCollection 0 ''docs'' [(''hnsw:space'', L2)] None (Inr ''docs'') # rest"
    by (simp add: example_defs backend_defs)
  from p [THEN conjunct2, THEN conjunct2, THEN conjunct2]
  have p_find: "\<exists>rest. trace (snd (find_similar ?K ''apple'' ?provider)) =
      GetOrCreateCollection 0 ''docs'' [(''hnsw:space'', L2)] None (Inr ''docs'') # rest"
    by (simp add: example_defs backend_defs)
  note refused = q [THEN conjunct1, rule_format, OF no_ids]
  from n [THEN conjunct2, THEN conjunct1, rule_format, OF ids]
  have n_store: "\<exists>rest. trace (snd (store ?K [apple, banana] ?native)) =
      GetOrCreateCollection 3 ''texts'' [(''hnsw:space'', Cosine)] (Some 8) (Inr ''texts'')
        # rest"
    by (simp add: example_defs backend_defs)
  from n [THEN conjunct2, THEN conjunct2, THEN conjunct2]
  have n_find: "\<exists>rest. trace (snd (find_similar ?K ''apple'' ?native)) =
      GetOrCreateCollection 3 ''texts'' [(''hnsw:space'', Cosine)] (Some 8) (Inr ''texts'')
        # rest"
    by (simp add: example_defs backend_defs)
  show ?thesis
    by (intro conjI)
      (fact made, fact p_store, fact p_retrieve, fact p_find, fact refused, fact made2,
        fact n_store, fact n_find)
qed

text \<open>
  C9. No entry point changes the store object: after \<^verbatim>\<open>store\<close>, \<^verbatim>\<open>retrieve\<close> and
  \<^verbatim>\<open>find_similar\<close> the object (index name, collection metadata, threshold, embedding
  function reference and client reference) is what it was before the call, whatever the
  collaborators answer.
\<close>

theorem operations_keep_configuration:
  "self (snd (store X entries st)) = self st \<and>
   self (snd (retrieve X v k st)) = self st \<and>
   self (snd (find_similar X t st)) = self st"
  by (simp add: store_run retrieve_run find_similar_run get_chroma_collection_run Let_def
      split: prod.splits sum.splits embedding_function.splits)

text \<open>
  C10. The id \<^verbatim>\<open>store\<close> derives for an entry depends on the payload only. Two batches
  with the same payloads, whatever their keys and metadata, have the same ids, and two
  entries of one batch with the same payload have the same id. A later \<^verbatim>\<open>store\<close> of
  entries with the payloads of an earlier batch, from any state, makes its \<^verbatim>\<open>add\<close> call
  with the ids of the earlier batch; and on the reference backend that later write
  succeeds (for distinct ids), the collection holds the ids, and the ids stored in every
  collection are what they were before it: the rows collide, no row is added.
\<close>

theorem storage_id_ignores_key_and_metadata:
  "(map vector entries' = map vector entries \<longrightarrow>
      derive_ids X (formatted_data entries') = derive_ids X (formatted_data entries)) \<and>
   (\<forall>ids. derive_ids X (formatted_data entries) = Inr ids \<longrightarrow>
      length ids = length entries \<and>
      (\<forall>i < length entries. \<forall>j < length entries.
         vector (entries ! i) = vector (entries ! j) \<longrightarrow> ids ! i = ids ! j)) \<and>
   (\<forall>ids c w1 w2 embeddings embed_calls.
      map vector entries' = map vector entries \<longrightarrow>
      derive_ids X (formatted_data entries) = Inr ids \<longrightarrow>
      get_or_create_collection X (chroma_client (self st')) (index_name (self st'))
        (metadata_private (self st'))
        (case embedding_function (self st') of Embeddings _ \<Rightarrow> None | EmbeddingFunction f \<Rightarrow> Some f)
        (world st') = (Inr c, w1) \<longrightarrow>
      (case embedding_function (self st') of
         Embeddings p \<Rightarrow>
           \<exists>es. embed_text X p (map vector entries') w1 = (Inr es, w2) \<and> embeddings = Some es \<and>
                embed_calls = [EmbedText p (map vector entries') (Inr es)]
       | EmbeddingFunction f \<Rightarrow> w2 = w1 \<and> embeddings = None \<and> embed_calls = []) \<longrightarrow>
      (\<exists>answer.
         trace (snd (store X entries' st')) =
           trace st' @
           [GetOrCreateCollection (chroma_client (self st')) (index_name (self st'))
              (metadata_private (self st'))
              (case embedding_function (self st') of
                 Embeddings _ \<Rightarrow> None | EmbeddingFunction f \<Rightarrow> Some f)
              (Inr c)] @
           embed_calls @
           [CollectionAdd c ids embeddings (map vector entries')
              (map (\<lambda>e. \<lparr>meta_key = Some (key e), meta_metadata = Some (metadata e)\<rparr>) entries')
              answer])) \<and>
   (map vector batch' = map vector batch \<longrightarrow>
      map (\<lambda>(name, col). (name, map fst (collection_rows col)))
        (world (snd (store (reference_collaborators policy encode digest embedder distance) batch'
           (snd (store (reference_collaborators policy encode digest embedder distance) batch
              s))))) =
      map (\<lambda>(name, col). (name, map fst (collection_rows col)))
        (world (snd (store (reference_collaborators policy encode digest embedder distance) batch
           s))) \<and>
      (\<forall>ids. derive_ids (reference_collaborators policy encode digest embedder distance
                  :: (('v, 'm) backend, string, 'v, 'm) collaborators)
                (formatted_data batch) = Inr ids \<longrightarrow>
         distinct ids \<longrightarrow>
         fst (store (reference_collaborators policy encode digest embedder distance) batch'
                (snd (store (reference_collaborators policy encode digest embedder distance)
                        batch s))) = Inr () \<and>
         (\<exists>col. map_of
                  (world (snd (store (reference_collaborators policy encode digest embedder
                                       distance) batch'
                                (snd (store (reference_collaborators policy encode digest
                                               embedder distance) batch
                                        (s :: (('v, 'm) backend, string, 'v, 'm) state))))))
                  (index_name (self s)) = Some col \<and>
                set ids \<subseteq> fst ` set (collection_rows col))))"
proof (intro conjI allI impI, goal_cases)
  case 1
  then have "map item_text (formatted_data entries') = map item_text (formatted_data entries)"
    by (simp only: formatted_data_texts)
  then show ?case by (rule derive_ids_payloads)
next
  case (2 ids)
  from derive_ids_texts [OF 2] show ?case by (auto simp: formatted_data_def)
next
  case (3 ids i j)
  note all = derive_ids_hashes [OF 3(1)]
  from all 3(2) have "\<exists>t b. item_text (formatted_data entries ! i) = Text t \<and>
      encode_utf8 X t = Inr b \<and> ids ! i = sha256_hexdigest X b"
    by (simp add: list_all2_conv_all_nth formatted_data_def)
  moreover from all 3(3) have "\<exists>t b. item_text (formatted_data entries ! j) = Text t \<and>
      encode_utf8 X t = Inr b \<and> ids ! j = sha256_hexdigest X b"
    by (simp add: list_all2_conv_all_nth formatted_data_def)
  ultimately show ?case
    using 3(2,3,4) by (auto simp: formatted_data_def)
next
  case (4 ids c w1 w2 embeddings embed_calls)
  from 4(1) have "map item_text (formatted_data entries') = map item_text (formatted_data entries)"
    by (simp only: formatted_data_texts)
  then have "derive_ids X (formatted_data entries') = derive_ids X (formatted_data entries)"
    by (rule derive_ids_payloads)
  with 4(2) have ids: "derive_ids X (formatted_data entries') = Inr ids" by simp
  from store_add_call [OF ids 4(3) 4(4)] show ?case
    by (simp split: prod.splits)
next
  case 5
  then show ?case by (rule reference_store_later_write)
next
  case (6 ids)
  from 6(1) have "map item_text (formatted_data batch') = map item_text (formatted_data batch)"
    by (simp only: formatted_data_texts)
  then have "derive_ids (reference_collaborators policy encode digest embedder distance
                :: (('v, 'm) backend, string, 'v, 'm) collaborators) (formatted_data batch') =
      derive_ids (reference_collaborators policy encode digest embedder distance)
        (formatted_data batch)"
    by (rule derive_ids_payloads)
  with 6(2) have "derive_ids (reference_collaborators policy encode digest embedder distance
                :: (('v, 'm) backend, string, 'v, 'm) collaborators) (formatted_data batch') =
      Inr ids" by simp
  from reference_store_writes_ids [OF this 6(3)] show ?case by (rule conjunct1)
next
  case (7 ids)
  from 7(1) have "map item_text (formatted_data batch') = map item_text (formatted_data batch)"
    by (simp only: formatted_data_texts)
  then have "derive_ids (reference_collaborators policy encode digest embedder distance
                :: (('v, 'm) backend, string, 'v, 'm) collaborators) (formatted_data batch') =
      derive_ids (reference_collaborators policy encode digest embedder distance)
        (formatted_data batch)"
    by (rule derive_ids_payloads)
  with 7(2) have "derive_ids (reference_collaborators policy encode digest embedder distance
                :: (('v, 'm) backend, string, 'v, 'm) collaborators) (formatted_data batch') =
      Inr ids" by simp
  from reference_store_writes_ids [OF this 7(3),
      of "snd (store (reference_collaborators policy encode digest embedder distance) batch s)"]
  show ?case by (simp add: store_self)
qed

text \<open>
  Witness for C10: \<open>apple_again\<close>, which has the payload of \<open>apple\<close> and another key and
  metadata, stored after \<open>apple\<close>, with a provider and with a backend-native embedding
  function: the second \<^verbatim>\<open>add\<close> call carries the id of the first, and the collection holds
  one id.
\<close>

theorem storage_id_ignores_key_and_metadata_witness:
  "derive_ids (example_collaborators KeepExisting
       :: ((real list, nat) backend, string, real list, nat) collaborators)
     (formatted_data [apple_again]) =
   derive_ids (example_collaborators KeepExisting
       :: ((real list, nat) backend, string, real list, nat) collaborators)
     (formatted_data [apple]) \<and>
   derive_ids (example_collaborators KeepExisting
       :: ((real list, nat) backend, string, real list, nat) collaborators)
     (formatted_data [apple]) = Inr [''sha256:apple''] \<and>
   (\<exists>answer.
      trace (snd (store (example_collaborators KeepExisting) [apple_again]
               (snd (store (example_collaborators KeepExisting) [apple]
                       (fresh (example_store (Embeddings 7) None)))))) =
        [GetOrCreateCollection 0 ''docs'' [(''hnsw:space'', L2)] None (Inr ''docs''),
         EmbedText 7 [Text ''apple''] (Inr [[5]]),
         CollectionAdd ''docs'' [''sha256:apple''] (Some [[5]]) [Text ''apple'']
           [\<lparr>meta_key = Some ''doc-1'', meta_metadata = Some (1::nat)\<rparr>] (Inr ()),
         GetOrCreateCollection 0 ''docs'' [(''hnsw:space'', L2)] None (Inr ''docs''),
         EmbedText 7 [Text ''apple''] (Inr [[5]]),
         CollectionAdd ''docs'' [''sha256:apple''] (Some [[5]]) [Text ''apple'']
           [\<lparr>meta_key = Some ''doc-3'', meta_metadata = Some 3\<rparr>] answer]) \<and>
   fst (store (example_collaborators KeepExisting) [apple_again]
          (snd (store (example_collaborators KeepExisting) [apple]
                  (fresh (example_store (Embeddings 7) None)
                     :: ((real list, nat) backend, string, real list, nat) state)))) =
     Inr () \<and>
   map (\<lambda>(name, col). (name, map fst (collection_rows col)))
     (world (snd (store (example_collaborators KeepExisting) [apple_again]
               (snd (store (example_collaborators KeepExisting) [apple]
                       (fresh (example_store (Embeddings 7) None)
                          :: ((real list, nat) backend, string, real list, nat) state)))))) =
     [(''docs'', [''sha256:apple''])] \<and>
   (\<exists>answer.
      trace (snd (store (example_collaborators Overwrite) [apple_again]
               (snd (store (example_collaborators Overwrite) [apple]
                       (fresh (example_store (EmbeddingFunction 8) None)))))) =
        [GetOrCreateCollection 0 ''docs'' [(''hnsw:space'', L2)] (Some 8) (Inr ''docs''),
         CollectionAdd ''docs'' [''sha256:apple''] None [Text ''apple'']
           [\<lparr>meta_key = Some ''doc-1'', meta_metadata = Some (1::nat)\<rparr>] (Inr ()),
         GetOrCreateCollection 0 ''docs'' [(''hnsw:space'', L2)] (Some 8) (Inr ''docs''),
         CollectionAdd ''docs'' [''sha256:apple''] None [Text ''apple'']
           [\<lparr>meta_key = Some ''doc-3'', meta_metadata = Some 3\<rparr>] answer]) \<and>
   fst (store (example_collaborators Overwrite) [apple_again]
          (snd (store (example_collaborators Overwrite) [apple]
                  (fresh (example_store (EmbeddingFunction 8) None)
                     :: ((real list, nat) backend, string, real list, nat) state)))) =
     Inr () \<and>
   map (\<lambda>(name, col). (name, map fst (collection_rows col)))
     (world (snd (store (example_collaborators Overwrite) [apple_again]
               (snd (store (example_collaborators Overwrite) [apple]
                       (fresh (example_store (EmbeddingFunction 8) None)
                          :: ((real list, nat) backend, string, real list, nat) state)))))) =
     [(''docs'', [''sha256:apple''])]"
proof -
  let ?K = "example_collaborators KeepExisting
              :: ((real list, nat) backend, string, real list, nat) collaborators"
  let ?O = "example_collaborators Overwrite
              :: ((real list, nat) backend, string, real list, nat) collaborators"
  let ?provider = "fresh (example_store (Embeddings 7) None)
              :: ((real list, nat) backend, string, real list, nat) state"
  let ?native = "fresh (example_store (EmbeddingFunction 8) None)
              :: ((real list, nat) backend, string, real list, nat) state"
  let ?world = "[(''docs'',
       \<lparr>collection_metadata = [(''hnsw:space'', L2)],
        collection_rows =
          [(''sha256:apple'',
            \<lparr>row_embedding = [5], row_document = ''apple'',
             row_metadata = \<lparr>meta_key = Some ''doc-1'', meta_metadata = Some (1::nat)\<rparr>\<rparr>)]\<rparr>)]
       :: (real list, nat) backend"
  have same: "map vector [apple_again] = map vector [apple]"
    by (simp add: apple_def apple_again_def)
  have ids: "derive_ids ?K (formatted_data [apple]) = Inr [''sha256:apple'']"
    by (simp add: formatted_data_def encode_payload_def example_defs backend_defs)
  have ids_o: "derive_ids ?O (formatted_data [apple]) = Inr [''sha256:apple'']"
    by (simp add: formatted_data_def encode_payload_def example_defs backend_defs)

  txt \<open>The later write, with an \<^verbatim>\<open>Embeddings\<close> provider, the stored row kept.\<close>
  let ?st1 = "snd (store ?K [apple] ?provider)"
  note keep = storage_id_ignores_key_and_metadata [where X = ?K and entries = "[apple]"
      and entries' = "[apple_again]" and st' = ?st1 and batch = "[apple]"
      and batch' = "[apple_again]" and s = ?provider and policy = KeepExisting
      and encode = example_encode and digest = "\<lambda>b. ''sha256:'' @ b"
      and embedder = example_embed and distance = example_dist,
      folded example_collaborators_def]
  note same_ids = keep [THEN conjunct1, rule_format, OF same]
  have state1: "?st1 =
      \<lparr>self = example_store (Embeddings 7) None, world = ?world,
       trace =
         [GetOrCreateCollection 0 ''docs'' [(''hnsw:space'', L2)] None (Inr ''docs''),
          EmbedText 7 [Text ''apple''] (Inr [[5]]),
          CollectionAdd ''docs'' [''sha256:apple''] (Some [[5]]) [Text ''apple'']
            [\<lparr>meta_key = Some ''doc-1'', meta_metadata = Some (1::nat)\<rparr>] (Inr ())]\<rparr>"
    by (simp add: method_defs example_defs backend_defs)
  have coll: "get_or_create_collection ?K (chroma_client (self ?st1)) (index_name (self ?st1))
        (metadata_private (self ?st1))
        (case embedding_function (self ?st1) of
           Embeddings _ \<Rightarrow> None | EmbeddingFunction f \<Rightarrow> Some f)
        (world ?st1) = (Inr ''docs'', ?world)"
    by (simp add: state1) (simp add: example_defs backend_defs)
  have emb: "case embedding_function (self ?st1) of
         Embeddings p \<Rightarrow>
           \<exists>es. embed_text ?K p (map vector [apple_again]) ?world = (Inr es, ?world) \<and>
                Some [[5]] = Some es \<and>
                [EmbedText 7 [Text ''apple''] (Inr [[5]])] =
                  [EmbedText p (map vector [apple_again]) (Inr es)]
       | EmbeddingFunction f \<Rightarrow> ?world = ?world \<and> Some [[5]] = None \<and>
           [EmbedText 7 [Text ''apple''] (Inr [[5::real]])
              :: (string, real list, nat) call] = []"
    by (simp add: state1) (simp add: example_defs backend_defs)
  from keep [THEN conjunct2, THEN conjunct2, THEN conjunct1, rule_format, OF same ids coll emb]
  have later_keep: "\<exists>answer.
      trace (snd (store ?K [apple_again] ?st1)) =
        [GetOrCreateCollection 0 ''docs'' [(''hnsw:space'', L2)] None (Inr ''docs''),
         EmbedText 7 [Text ''apple''] (Inr [[5]]),
         CollectionAdd ''docs'' [''sha256:apple''] (Some [[5]]) [Text ''apple'']
           [\<lparr>meta_key = Some ''doc-1'', meta_metadata = Some (1::nat)\<rparr>] (Inr ()),
         GetOrCreateCollection 0 ''docs'' [(''hnsw:space'', L2)] None (Inr ''docs''),
         EmbedText 7 [Text ''apple''] (Inr [[5]]),
         CollectionAdd ''docs'' [''sha256:apple''] (Some [[5]]) [Text ''apple'']
           [\<lparr>meta_key = Some ''doc-3'', meta_metadata = Some 3\<rparr>] answer]"
    by (simp add: state1) (simp add: example_defs)
  have "map (\<lambda>(name, col). (name, map fst (collection_rows col)))
          (world (snd (store ?K [apple_again] ?st1))) =
        map (\<lambda>(name, col). (name, map fst (collection_rows col))) (world ?st1)"
    by (rule keep [THEN conjunct2, THEN conjunct2, THEN conjunct2, rule_format, OF same,
          THEN conjunct1])
  also have "\<dots> = [(''docs'', [''sha256:apple''])]"
    by (simp add: state1)
  finally have one_row_keep: "map (\<lambda>(name, col). (name, map fst (collection_rows col)))
      (world (snd (store ?K [apple_again] ?st1))) = [(''docs'', [''sha256:apple''])]" .

  have distinct: "distinct [''sha256:apple'']" by simp
  note written_keep = keep [THEN conjunct2, THEN conjunct2, THEN conjunct2, rule_format,
      OF same, THEN conjunct2, rule_format, OF ids distinct, THEN conjunct1]

  txt \<open>The later write, with a backend-native embedding function, the stored row replaced.\<close>
  let ?st2 = "snd (store ?O [apple] ?native)"
  note over = storage_id_ignores_key_and_metadata [where X = ?O and entries = "[apple]"
      and entries' = "[apple_again]" and st' = ?st2 and batch = "[apple]"
      and batch' = "[apple_again]" and s = ?native and policy = Overwrite
      and encode = example_encode and digest = "\<lambda>b. ''sha256:'' @ b"
      and embedder = example_embed and distance = example_dist,
      folded example_collaborators_def]
  have state2: "?st2 =
      \<lparr>self = example_store (EmbeddingFunction 8) None, world = ?world,
       trace =
         [GetOrCreateCollection 0 ''docs'' [(''hnsw:space'', L2)] (Some 8) (Inr ''docs''),
          CollectionAdd ''docs'' [''sha256:apple''] None [Text ''apple'']
            [\<lparr>meta_key = Some ''doc-1'', meta_metadata = Some (1::nat)\<rparr>] (Inr ())]\<rparr>"
    by (simp add: method_defs example_defs backend_defs)
  have coll2: "get_or_create_collection ?O (chroma_client (self ?st2)) (index_name (self ?st2))
        (metadata_private (self ?st2))
        (case embedding_function (self ?st2) of
           Embeddings _ \<Rightarrow> None | EmbeddingFunction f \<Rightarrow> Some f)
        (world ?st2) = (Inr ''docs'', ?world)"
    by (simp add: state2) (simp add: example_defs backend_defs)
  have emb2: "case embedding_function (self ?st2) of
         Embeddings p \<Rightarrow>
           \<exists>es. embed_text ?O p (map vector [apple_again]) ?world = (Inr es, ?world) \<and>
                (None :: real list list option) = Some es \<and>
                ([] :: (string, real list, nat) call list) =
                  [EmbedText p (map vector [apple_again]) (Inr es)]
       | EmbeddingFunction f \<Rightarrow> ?world = ?world \<and> (None :: real list list option) = None \<and>
           ([] :: (string, real list, nat) call list) = []"
    by (simp add: state2) (simp add: example_defs)
  from over [THEN conjunct2, THEN conjunct2, THEN conjunct1, rule_format,
      OF same ids_o coll2 emb2]
  have later_over: "\<exists>answer.
      trace (snd (store ?O [apple_again] ?st2)) =
        [GetOrCreateCollection 0 ''docs'' [(''hnsw:space'', L2)] (Some 8) (Inr ''docs''),
         CollectionAdd ''docs'' [''sha256:apple''] None [Text ''apple'']
           [\<lparr>meta_key = Some ''doc-1'', meta_metadata = Some (1::nat)\<rparr>] (Inr ()),
         GetOrCreateCollection 0 ''docs'' [(''hnsw:space'', L2)] (Some 8) (Inr ''docs''),
         CollectionAdd ''docs'' [''sha256:apple''] None [Text ''apple'']
           [\<lparr>meta_key = Some ''doc-3'', meta_metadata = Some 3\<rparr>] answer]"
    by (simp add: state2) (simp add: example_defs)
  have "map (\<lambda>(name, col). (name, map fst (collection_rows col)))
          (world (snd (store ?O [apple_again] ?st2))) =
        map (\<lambda>(name, col). (name, map fst (collection_rows col))) (world ?st2)"
    by (rule over [THEN conjunct2, THEN conjunct2, THEN conjunct2, rule_format, OF same,
          THEN conjunct1])
  also have "\<dots> = [(''docs'', [''sha256:apple''])]"
    by (simp add: state2)
  finally have one_row_over: "map (\<lambda>(name, col). (name, map fst (collection_rows col)))
      (world (snd (store ?O [apple_again] ?st2))) = [(''docs'', [''sha256:apple''])]" .

  note written_over = over [THEN conjunct2, THEN conjunct2, THEN conjunct2, rule_format,
      OF same, THEN conjunct2, rule_format, OF ids_o distinct, THEN conjunct1]

  show ?thesis
    by (intro conjI)
      (fact same_ids, fact ids, fact later_keep, fact written_keep, fact one_row_keep,
        fact later_over, fact written_over, fact one_row_over)
qed

end
